theory Spec2Isabelle
  imports Main
begin

section \<open>The chat session store of \<^verbatim>\<open>src/App.tsx\<close>\<close>

text \<open>
  The component \<^verbatim>\<open>App\<close> keeps its whole store in seven React state variables. An event
  handler is a closure of one render: what it \<^emph>\<open>reads\<close> (\<^verbatim>\<open>chats\<close>, \<^verbatim>\<open>currentChatId\<close>,
  \<^verbatim>\<open>messages\<close>, \<^verbatim>\<open>model\<close>, \<^verbatim>\<open>input\<close>) are the values of that render, and stay so while the
  handler runs, whatever setters it has called meanwhile. A setter queues an update:
  \<^verbatim>\<open>setX(v)\<close> replaces the pending value of \<^verbatim>\<open>X\<close>, and \<^verbatim>\<open>setChats(prev => f(prev))\<close> applies
  \<^verbatim>\<open>f\<close> to the pending value. Every function below that the source nests inside \<^verbatim>\<open>App\<close>
  therefore takes two states: \<open>snap\<close>, the values its closure reads, and \<open>p\<close>, the pending
  state its setters update. An event delivered to a freshly rendered component runs its
  handler with \<open>snap = p\<close>.

  Strings are \<^typ>\<open>string\<close>: one \<^typ>\<open>char\<close> stands for one code unit of the source's
  strings, so \<^const>\<open>length\<close> is \<^verbatim>\<open>.length\<close> and \<^const>\<open>take\<close> is \<^verbatim>\<open>.slice(0, n)\<close>.
\<close>

subsection \<open>Data model\<close>

datatype role = User | Assistant

record message =
  role :: role
  content :: string

record chat =
  chat_id :: string
  chat_title :: string
  chat_messages :: "message list"
  chat_model :: string
  chat_createdAt :: nat

record app_state =
  chats :: "chat list"
  currentChatId :: "string option"
  messages :: "message list"
  input :: string
  isLoading :: bool
  model :: string
  error :: "string option"

text \<open>The values of the \<^verbatim>\<open>useState\<close> calls of lines 19 to 25.\<close>

definition init_state :: app_state where
  "init_state = \<lparr>chats = [], currentChatId = None, messages = [], input = [],
     isLoading = False, model = ''llama3.2:latest'', error = None\<rparr>"

text \<open>
  \<^verbatim>\<open>!currentChatId\<close> on a \<^verbatim>\<open>string | null\<close>: true of \<^verbatim>\<open>null\<close> and of the empty string.
\<close>

definition falsy :: "string option \<Rightarrow> bool" where
  "falsy v = (case v of None \<Rightarrow> True | Some t \<Rightarrow> t = [])"

subsection \<open>Numbers as text\<close>

text \<open>
  \<^verbatim>\<open>Date.now().toString()\<close> and the \<^verbatim>\<open>${response.status}\<close> of a template string render a
  non-negative integer in decimal, without leading zeros.
\<close>

definition digit :: "nat \<Rightarrow> char" where
  "digit d = char_of (48 + d)"

function toString :: "nat \<Rightarrow> string" where
  "toString n = (if n < 10 then [digit n] else toString (n div 10) @ [digit (n mod 10)])"
  by pat_completeness auto
termination
  by (relation "measure id") auto

declare toString.simps [simp del]

text \<open>Reading a decimal numeral back; only used to show that \<^const>\<open>toString\<close> is injective.\<close>

definition fromString :: "string \<Rightarrow> nat" where
  "fromString t = foldl (\<lambda>a c. 10 * a + (of_char c - 48)) 0 t"

subsection \<open>Whitespace\<close>

text \<open>
  \<^verbatim>\<open>input.trim()\<close> removes white space and line terminators from both ends. Among the code
  units a \<^typ>\<open>char\<close> can hold these are tab, line feed, vertical tab, form feed, carriage
  return, space and no-break space.
\<close>

definition is_ws :: "char \<Rightarrow> bool" where
  "is_ws c = ((of_char c :: nat) \<in> {9, 10, 11, 12, 13, 32, 160})"

definition trim :: "string \<Rightarrow> string" where
  "trim t = rev (dropWhile is_ws (rev (dropWhile is_ws t)))"

subsection \<open>The operations of the store\<close>

text \<open>\<^verbatim>\<open>createNewChat\<close>, lines 49 to 60. The two calls of \<^verbatim>\<open>Date.now()\<close> give \<open>now1\<close>, \<open>now2\<close>.\<close>

definition createNewChat :: "app_state \<Rightarrow> nat \<Rightarrow> nat \<Rightarrow> app_state \<Rightarrow> app_state" where
  "createNewChat snap now1 now2 p =
     (let newChat = \<lparr>chat_id = toString now1, chat_title = ''New Chat'', chat_messages = [],
                      chat_model = model snap, chat_createdAt = now2\<rparr>
      in p\<lparr>chats := newChat # chats p,
            currentChatId := Some (chat_id newChat),
            messages := []\<rparr>)"

text \<open>\<^verbatim>\<open>updateCurrentChat\<close>, lines 62 to 82 (the spec's \<^verbatim>\<open>append_and_sync\<close>).\<close>

definition updateCurrentChat :: "app_state \<Rightarrow> message list \<Rightarrow> app_state \<Rightarrow> app_state" where
  "updateCurrentChat snap msgs p =
     (if falsy (currentChatId snap) then p
      else p\<lparr>chats := map (\<lambda>chat.
        if Some (chat_id chat) = currentChatId snap then
          (let firstUserMessage = find (\<lambda>m. role m = User) msgs;
               title = (case firstUserMessage of
                          Some m \<Rightarrow> take 30 (content m) @ (if length (content m) > 30 then ''...'' else [])
                        | None \<Rightarrow> ''New Chat'')
           in chat\<lparr>chat_messages := msgs, chat_title := title, chat_model := model snap\<rparr>)
        else chat) (chats p)\<rparr>)"

text \<open>
  \<^verbatim>\<open>selectChat\<close>, lines 140 to 147. The arrow function has no \<^verbatim>\<open>return\<close> statement, so a call
  evaluates to \<^verbatim>\<open>undefined\<close> on both branches; the spec's \<^verbatim>\<open>select_chat\<close> is declared to give
  a chat or \<^verbatim>\<open>NotFound\<close>. The first component is the value of the call.
\<close>

datatype select_result = Undefined | Found chat | NotFound

definition selectChat :: "app_state \<Rightarrow> string \<Rightarrow> app_state \<Rightarrow> select_result \<times> app_state" where
  "selectChat snap chatId p =
     (case find (\<lambda>c. chat_id c = chatId) (chats snap) of
        Some c \<Rightarrow> (Undefined, p\<lparr>currentChatId := Some chatId,
                                  messages := chat_messages c,
                                  model := chat_model c\<rparr>)
      | None \<Rightarrow> (Undefined, p))"

text \<open>\<^verbatim>\<open>deleteChat\<close>, lines 149 to 161, as the click handler of a rendered component.\<close>

definition deleteChat :: "app_state \<Rightarrow> string \<Rightarrow> app_state" where
  "deleteChat s chatId =
     (let p = s\<lparr>chats := filter (\<lambda>c. chat_id c \<noteq> chatId) (chats s)\<rparr>
      in if currentChatId s = Some chatId then
           (case filter (\<lambda>c. chat_id c \<noteq> chatId) (chats s) of
              c # _ \<Rightarrow> snd (selectChat s (chat_id c) p)
            | [] \<Rightarrow> p\<lparr>currentChatId := None, messages := []\<rparr>)
         else p)"

text \<open>The \<^verbatim>\<open>onChange\<close> handlers of the model selector and of the text field.\<close>

definition setModel :: "string \<Rightarrow> app_state \<Rightarrow> app_state" where
  "setModel m s = s\<lparr>model := m\<rparr>"

definition setInput :: "string \<Rightarrow> app_state \<Rightarrow> app_state" where
  "setInput v s = s\<lparr>input := v\<rparr>"

subsection \<open>Message submission\<close>

text \<open>
  What the \<^verbatim>\<open>try\<close> block of \<^verbatim>\<open>handleSubmit\<close> can meet: \<^verbatim>\<open>fetch\<close>, \<^verbatim>\<open>response.text()\<close> or
  \<^verbatim>\<open>response.json()\<close> throws (with the message of the thrown value if it is an \<^verbatim>\<open>Error\<close>);
  the response is not \<^verbatim>\<open>ok\<close> (status and body text); or the body parses, where
  \<^verbatim>\<open>data.response\<close> is a string or is missing.
\<close>

datatype fetch_outcome =
    Thrown "string option"
  | NotOk nat string
  | Json "string option"

text \<open>
  \<^verbatim>\<open>handleSubmit\<close> up to its \<^verbatim>\<open>await\<close>, lines 84 to 99: the state the queued updates give when
  the handler suspends with the request issued. A blank input returns at line 86 and
  changes nothing.
\<close>

definition handleSubmit_begin :: "app_state \<Rightarrow> nat \<Rightarrow> nat \<Rightarrow> app_state" where
  "handleSubmit_begin s now1 now2 =
     (if trim (input s) = [] then s
      else
        let p1 = (if falsy (currentChatId s) then createNewChat s now1 now2 s else s);
            userMessage = \<lparr>role = User, content = input s\<rparr>;
            newMessages = messages s @ [userMessage];
            p2 = p1\<lparr>messages := newMessages\<rparr>;
            p3 = updateCurrentChat s newMessages p2
        in p3\<lparr>input := [], isLoading := True, error := None\<rparr>)"

text \<open>
  The rest of \<^verbatim>\<open>handleSubmit\<close>, lines 101 to 137, run when the request settles: \<open>snap\<close> is
  still the render the submission was made in, \<open>cur\<close> the state at that moment.
\<close>

definition handleSubmit_resume :: "app_state \<Rightarrow> fetch_outcome \<Rightarrow> app_state \<Rightarrow> app_state" where
  "handleSubmit_resume snap outcome cur =
     (let userMessage = \<lparr>role = User, content = input snap\<rparr>;
          newMessages = messages snap @ [userMessage];
          failed = (\<lambda>errorMessage. cur\<lparr>error := Some errorMessage, isLoading := False\<rparr>)
      in case outcome of
           Thrown (Some msg) \<Rightarrow> failed msg
         | Thrown None \<Rightarrow> failed ''An unknown error occurred''
         | NotOk status errorData \<Rightarrow>
             failed (''API Error: '' @ toString status @ '' '' @ errorData)
         | Json None \<Rightarrow> failed ''No response data received from Ollama''
         | Json (Some r) \<Rightarrow>
             if r = [] then failed ''No response data received from Ollama''
             else
               let assistantMessage = \<lparr>role = Assistant, content = r\<rparr>;
                   updatedMessages = newMessages @ [assistantMessage];
                   p1 = cur\<lparr>messages := updatedMessages\<rparr>;
                   p2 = updateCurrentChat snap updatedMessages p1
               in p2\<lparr>isLoading := False\<rparr>)"

text \<open>A whole submission with nothing happening between the request and its outcome.\<close>

definition handleSubmit :: "app_state \<Rightarrow> nat \<Rightarrow> nat \<Rightarrow> fetch_outcome \<Rightarrow> app_state" where
  "handleSubmit s now1 now2 outcome =
     (if trim (input s) = [] then s
      else handleSubmit_resume s outcome (handleSubmit_begin s now1 now2))"

subsection \<open>Sequences of store operations\<close>

datatype op =
    CreateChat nat nat
  | AppendAndSync "message list"
  | SelectChat string
  | DeleteChat string

fun step :: "app_state \<Rightarrow> op \<Rightarrow> app_state" where
  "step s (CreateChat now1 now2) = createNewChat s now1 now2 s"
| "step s (AppendAndSync msgs) = updateCurrentChat s msgs s"
| "step s (SelectChat chatId) = snd (selectChat s chatId s)"
| "step s (DeleteChat chatId) = deleteChat s chatId"

definition run :: "app_state \<Rightarrow> op list \<Rightarrow> app_state" where
  "run s ops = foldl step s ops"

text \<open>The cursor is not dangling: an active chat id names a chat of the collection.\<close>

definition cursor_ok :: "app_state \<Rightarrow> bool" where
  "cursor_ok s = (case currentChatId s of
                    None \<Rightarrow> True
                  | Some i \<Rightarrow> i \<in> set (map chat_id (chats s)))"

subsection \<open>What the spec says of selection, failure and the clock\<close>

text \<open>
  The spec's \<^verbatim>\<open>select_chat(id) -> Chat | NotFound\<close>, written from the spec's words to be
  compared with \<^const>\<open>selectChat\<close>: on success the chat becomes active, its log and model
  are loaded and the chat is returned; on failure \<^verbatim>\<open>NotFound\<close> is signalled and the cursor is
  left as it was.
\<close>

definition select_chat_spec :: "app_state \<Rightarrow> string \<Rightarrow> select_result \<times> app_state" where
  "select_chat_spec s chatId =
     (case find (\<lambda>c. chat_id c = chatId) (chats s) of
        Some c \<Rightarrow> (Found c, s\<lparr>currentChatId := Some chatId,
                                messages := chat_messages c,
                                model := chat_model c\<rparr>)
      | None \<Rightarrow> (NotFound, s))"

text \<open>The outcomes on which the \<^verbatim>\<open>try\<close> block throws, lines 114 to 122, and \<^verbatim>\<open>catch\<close> runs.\<close>

definition throws :: "fetch_outcome \<Rightarrow> bool" where
  "throws outcome = (case outcome of
                       Thrown _ \<Rightarrow> True
                     | NotOk _ _ \<Rightarrow> True
                     | Json None \<Rightarrow> True
                     | Json (Some r) \<Rightarrow> r = [])"

text \<open>
  A clock that never repeats: every \<^verbatim>\<open>Date.now()\<close> that names a new chat reads at least \<open>t\<close>,
  and more than every such reading before it. \<open>ids_before t\<close> says that every id of the
  collection is the text of a reading below \<open>t\<close>.
\<close>

fun clock_ok :: "nat \<Rightarrow> op list \<Rightarrow> bool" where
  "clock_ok t [] = True"
| "clock_ok t (CreateChat now1 now2 # ops) = (t \<le> now1 \<and> clock_ok (Suc now1) ops)"
| "clock_ok t (x # ops) = clock_ok t ops"

definition ids_before :: "nat \<Rightarrow> app_state \<Rightarrow> bool" where
  "ids_before t s = (\<forall>i\<in>set (map chat_id (chats s)). \<exists>n<t. i = toString n)"

subsection \<open>Example states\<close>

definition chatA :: chat where
  "chatA = \<lparr>chat_id = ''2'', chat_title = ''New Chat'', chat_messages = [],
             chat_model = ''mistral'', chat_createdAt = 2\<rparr>"

definition chatB :: chat where
  "chatB = \<lparr>chat_id = ''1'', chat_title = ''Hi'',
             chat_messages = [\<lparr>role = User, content = ''Hi''\<rparr>, \<lparr>role = Assistant, content = ''Yo''\<rparr>],
             chat_model = ''llama2'', chat_createdAt = 1\<rparr>"

definition two_chats :: app_state where
  "two_chats = \<lparr>chats = [chatA, chatB], currentChatId = Some ''2'', messages = [], input = [],
     isLoading = False, model = ''mistral'', error = None\<rparr>"

definition one_chat :: app_state where
  "one_chat = \<lparr>chats = [chatB], currentChatId = Some ''1'', messages = chat_messages chatB,
     input = ''Why?'', isLoading = False, model = ''llama2'', error = None\<rparr>"

section \<open>Basic facts\<close>

lemmas ex_defs = two_chats_def one_chat_def chatA_def chatB_def

subsection \<open>Decimal text\<close>

lemma toString_nonempty: "toString n \<noteq> []"
  by (subst toString.simps) simp

lemma fromString_snoc: "fromString (t @ [c]) = 10 * fromString t + (of_char c - 48)"
  by (simp add: fromString_def)

lemma digit_val: "d < 10 \<Longrightarrow> (of_char (digit d) :: nat) - 48 = d"
  by (simp add: digit_def)

lemma fromString_toString: "fromString (toString n) = n"
proof (induction n rule: toString.induct)
  case (1 n)
  show ?case
  proof (cases "n < 10")
    case True
    then show ?thesis
      by (subst toString.simps) (simp add: fromString_def digit_val)
  next
    case False
    with 1 have "fromString (toString (n div 10)) = n div 10" by simp
    with False show ?thesis
      by (subst toString.simps) (simp add: fromString_snoc digit_val)
  qed
qed

lemma toString_inject: "toString a = toString b \<Longrightarrow> a = b"
  by (metis fromString_toString)

subsection \<open>Lists of chats\<close>

lemma find_chat_id: "find (\<lambda>c. chat_id c = i) cs = Some c \<Longrightarrow> i \<in> set (map chat_id cs)"
  by (induction cs) (auto split: if_splits)

lemma filter_head_sat: "filter P cs = c # rest \<Longrightarrow> P c"
proof -
  assume "filter P cs = c # rest"
  then have "c \<in> set (filter P cs)" by simp
  then show "P c" by simp
qed

text \<open>
  \<^verbatim>\<open>deleteChat\<close> looks the head of the remaining chats up by id in the chats of its render;
  the lookup finds that very chat, also when ids repeat.
\<close>

lemma find_head_of_filter:
  assumes "filter (\<lambda>c. chat_id c \<noteq> i) cs = c # rest"
  shows "find (\<lambda>d. chat_id d = chat_id c) cs = Some c"
proof -
  have ne: "chat_id c \<noteq> i" using filter_head_sat [OF assms] .
  from assms show ?thesis
  proof (induction cs)
    case Nil
    then show ?case by simp
  next
    case (Cons a cs)
    then show ?case using ne by (cases "chat_id a = i") auto
  qed
qed

lemma updateCurrentChat_ids:
  "map chat_id (chats (updateCurrentChat snap msgs p)) = map chat_id (chats p)"
  by (simp add: updateCurrentChat_def Let_def)

lemma updateCurrentChat_cursor:
  "currentChatId (updateCurrentChat snap msgs p) = currentChatId p"
  by (simp add: updateCurrentChat_def)

section \<open>The cursor never dangles\<close>

lemma cursor_ok_create: "cursor_ok (createNewChat s n m s)"
  by (simp add: cursor_ok_def createNewChat_def Let_def)

lemma cursor_ok_update: "cursor_ok s \<Longrightarrow> cursor_ok (updateCurrentChat s msgs s)"
  unfolding cursor_ok_def updateCurrentChat_ids updateCurrentChat_cursor .

lemma cursor_ok_select: "cursor_ok s \<Longrightarrow> cursor_ok (snd (selectChat s i s))"
  by (auto simp: cursor_ok_def selectChat_def split: option.splits dest: find_chat_id)

lemma cursor_ok_delete: "cursor_ok s \<Longrightarrow> cursor_ok (deleteChat s i)"
proof (cases "currentChatId s = Some i")
  case True
  show ?thesis
  proof (cases "filter (\<lambda>c. chat_id c \<noteq> i) (chats s)")
    case Nil
    with True show ?thesis by (simp add: deleteChat_def cursor_ok_def)
  next
    case (Cons c rest)
    with True find_head_of_filter [OF Cons] show ?thesis
      by (simp add: deleteChat_def cursor_ok_def selectChat_def)
  qed
next
  case False
  assume "cursor_ok s"
  with False show ?thesis
    by (auto simp: deleteChat_def cursor_ok_def split: option.splits)
qed

lemma cursor_ok_step: "cursor_ok s \<Longrightarrow> cursor_ok (step s x)"
  by (cases x) (simp_all add: cursor_ok_create cursor_ok_update cursor_ok_select cursor_ok_delete)

text \<open>
  Claim C1. Along every sequence of create, append-and-sync, select and delete operations
  that starts in a state where the active chat id, if there is one, names a chat of the
  collection, it still does so at the end: the cursor never dangles.
\<close>

theorem no_dangling_cursor: "cursor_ok s \<Longrightarrow> cursor_ok (run s ops)"
  unfolding run_def
  by (induction ops arbitrary: s) (simp_all add: cursor_ok_step)

theorem no_dangling_cursor_witness:
  "cursor_ok init_state \<and>
   cursor_ok (run init_state
     [CreateChat 5 5, AppendAndSync [\<lparr>role = User, content = ''Hello''\<rparr>],
      CreateChat 6 7, DeleteChat (toString 6), SelectChat (toString 5), DeleteChat (toString 5)])"
proof -
  have h: "cursor_ok init_state"
    by (simp add: cursor_ok_def init_state_def)
  from h no_dangling_cursor [OF h] show ?thesis by simp
qed

section \<open>Append and sync\<close>

text \<open>What \<^verbatim>\<open>updateCurrentChat\<close> makes of a chat that carries the active id.\<close>

lemma updated_chat:
  assumes "currentChatId snap = Some i" "i \<noteq> []"
    and "c \<in> set (chats (updateCurrentChat snap msgs p))" "chat_id c = i"
  shows "\<exists>c0 \<in> set (chats p). c = c0\<lparr>chat_messages := msgs,
           chat_title := (case find (\<lambda>m. role m = User) msgs of
                          Some m \<Rightarrow> take 30 (content m) @ (if length (content m) > 30 then ''...'' else [])
                        | None \<Rightarrow> ''New Chat''),
           chat_model := model snap\<rparr>"
  using assms by (auto simp: updateCurrentChat_def falsy_def Let_def split: if_splits)

text \<open>
  Claim C3. After \<^verbatim>\<open>updateCurrentChat\<close> has run with an active chat (an id that the guard of
  line 63 lets through), the title of that chat is \<^verbatim>\<open>New Chat\<close> if the log has no message of
  role user; otherwise, with the first user message's content of length at most 30, that
  content and nothing more; and with a longer content, its first 30 characters followed by
  three dots.
\<close>

theorem updateCurrentChat_title:
  assumes "currentChatId s = Some i" and "i \<noteq> []"
    and "c \<in> set (chats (updateCurrentChat s msgs s))" and "chat_id c = i"
  shows "((\<forall>m\<in>set msgs. role m \<noteq> User) \<longrightarrow> chat_title c = ''New Chat'') \<and>
         (\<forall>m. find (\<lambda>m. role m = User) msgs = Some m \<and> length (content m) \<le> 30
               \<longrightarrow> chat_title c = content m) \<and>
         (\<forall>m. find (\<lambda>m. role m = User) msgs = Some m \<and> length (content m) > 30
               \<longrightarrow> chat_title c = take 30 (content m) @ ''...'')"
proof -
  from updated_chat [OF assms] obtain c0 where
    c: "c = c0\<lparr>chat_messages := msgs,
           chat_title := (case find (\<lambda>m. role m = User) msgs of
                          Some m \<Rightarrow> take 30 (content m) @ (if length (content m) > 30 then ''...'' else [])
                        | None \<Rightarrow> ''New Chat''),
           chat_model := model s\<rparr>" by blast
  have none: "(\<forall>m\<in>set msgs. role m \<noteq> User) \<Longrightarrow> find (\<lambda>m. role m = User) msgs = None"
    by (simp add: find_None_iff)
  show ?thesis
    by (auto simp: c none)
qed

theorem updateCurrentChat_title_witness:
  "currentChatId two_chats = Some ''2'' \<and> ''2'' \<noteq> [] \<and>
   hd (chats (updateCurrentChat two_chats [\<lparr>role = Assistant, content = ''Yo''\<rparr>] two_chats))
     \<in> set (chats (updateCurrentChat two_chats [\<lparr>role = Assistant, content = ''Yo''\<rparr>] two_chats)) \<and>
   chat_id (hd (chats (updateCurrentChat two_chats [\<lparr>role = Assistant, content = ''Yo''\<rparr>] two_chats))) = ''2'' \<and>
   chat_title (hd (chats (updateCurrentChat two_chats [\<lparr>role = Assistant, content = ''Yo''\<rparr>] two_chats))) = ''New Chat'' \<and>
   chat_title (hd (chats (updateCurrentChat two_chats
       [\<lparr>role = Assistant, content = ''Yo''\<rparr>, \<lparr>role = User, content = ''Hello''\<rparr>] two_chats))) = ''Hello'' \<and>
   chat_title (hd (chats (updateCurrentChat two_chats
       [\<lparr>role = User, content = replicate 40 CHR ''a''\<rparr>] two_chats))) = replicate 30 CHR ''a'' @ ''...''"
proof -
  have h1: "currentChatId two_chats = Some ''2''" by (simp add: two_chats_def)
  have h2: "''2'' \<noteq> []" by simp
  have h3: "hd (chats (updateCurrentChat two_chats msgs two_chats))
     \<in> set (chats (updateCurrentChat two_chats msgs two_chats))" for msgs
    by (simp add: updateCurrentChat_def two_chats_def falsy_def chatA_def chatB_def)
  have h4: "chat_id (hd (chats (updateCurrentChat two_chats msgs two_chats))) = ''2''" for msgs
    by (simp add: updateCurrentChat_def two_chats_def falsy_def chatA_def chatB_def Let_def)
  note t = updateCurrentChat_title [OF h1 h2 h3 h4]
  from t [of "[\<lparr>role = Assistant, content = ''Yo''\<rparr>]"]
    t [of "[\<lparr>role = Assistant, content = ''Yo''\<rparr>, \<lparr>role = User, content = ''Hello''\<rparr>]"]
    t [of "[\<lparr>role = User, content = replicate 40 CHR ''a''\<rparr>]"]
    h1 h3 h4
  show ?thesis by simp
qed

text \<open>
  Claim C9. \<^verbatim>\<open>updateCurrentChat\<close> keeps the collection's length and order: at every position
  the chat keeps its id and its creation time, and a chat whose id is not the active one
  is left as it was.
\<close>

theorem updateCurrentChat_frame:
  "length (chats (updateCurrentChat snap msgs p)) = length (chats p) \<and>
   (\<forall>k < length (chats p).
      chat_id (chats (updateCurrentChat snap msgs p) ! k) = chat_id (chats p ! k) \<and>
      chat_createdAt (chats (updateCurrentChat snap msgs p) ! k) = chat_createdAt (chats p ! k) \<and>
      (Some (chat_id (chats p ! k)) \<noteq> currentChatId snap \<longrightarrow>
         chats (updateCurrentChat snap msgs p) ! k = chats p ! k))"
  by (simp add: updateCurrentChat_def Let_def)

theorem updateCurrentChat_frame_witness:
  "length (chats (updateCurrentChat two_chats [\<lparr>role = User, content = ''Hello''\<rparr>] two_chats)) = 2 \<and>
   (1::nat) < length (chats two_chats) \<and>
   Some (chat_id (chats two_chats ! 1)) \<noteq> currentChatId two_chats \<and>
   chats (updateCurrentChat two_chats [\<lparr>role = User, content = ''Hello''\<rparr>] two_chats) ! 1 = chatB \<and>
   chat_id (chats (updateCurrentChat two_chats [\<lparr>role = User, content = ''Hello''\<rparr>] two_chats) ! 0) = ''2'' \<and>
   chat_createdAt (chats (updateCurrentChat two_chats [\<lparr>role = User, content = ''Hello''\<rparr>] two_chats) ! 0) = 2"
proof -
  note f = updateCurrentChat_frame [of two_chats "[\<lparr>role = User, content = ''Hello''\<rparr>]" two_chats]
  from f [THEN conjunct1] f [THEN conjunct2, rule_format, of 0] f [THEN conjunct2, rule_format, of 1]
  show ?thesis by (simp add: ex_defs)
qed

lemma handleSubmit_begin_active:
  assumes "\<not> falsy (currentChatId s)" "trim (input s) \<noteq> []"
  shows "handleSubmit_begin s n1 n2 =
     (updateCurrentChat s (messages s @ [\<lparr>role = User, content = input s\<rparr>])
        (s\<lparr>messages := messages s @ [\<lparr>role = User, content = input s\<rparr>]\<rparr>))
       \<lparr>input := [], isLoading := True, error := None\<rparr>"
  using assms by (simp add: handleSubmit_begin_def Let_def)

text \<open>
  Claim C10, as stated for every call, fails at the call of line 130. That call is made by
  the closure of the render in which the message was submitted, and the model selector is
  never disabled: when another model is selected while the request is pending, the call
  stores the model of the submission, not the model the cursor holds by then.
\<close>

theorem updateCurrentChat_stale_model_counterexample:
  "currentChatId (handleSubmit_resume one_chat (Json (Some ''Because''))
      (setModel ''mistral'' (handleSubmit_begin one_chat 7 7))) = Some ''1'' \<and>
   model (handleSubmit_resume one_chat (Json (Some ''Because''))
      (setModel ''mistral'' (handleSubmit_begin one_chat 7 7))) = ''mistral'' \<and>
   map chat_id (chats (handleSubmit_resume one_chat (Json (Some ''Because''))
      (setModel ''mistral'' (handleSubmit_begin one_chat 7 7)))) = [''1''] \<and>
   map chat_model (chats (handleSubmit_resume one_chat (Json (Some ''Because''))
      (setModel ''mistral'' (handleSubmit_begin one_chat 7 7)))) = [''llama2''] \<and>
   model (updateCurrentChat one_chat [] (setModel ''mistral'' one_chat)) = ''mistral'' \<and>
   map chat_model (chats (updateCurrentChat one_chat [] (setModel ''mistral'' one_chat))) = [''llama2'']"
proof -
  have t: "trim ''Why?'' \<noteq> []"
    by (simp add: trim_def is_ws_def)
  then show ?thesis
    by (simp add: handleSubmit_resume_def handleSubmit_begin_def setModel_def updateCurrentChat_def
        falsy_def Let_def ex_defs)
qed

text \<open>
  Claim C10, amended. A call of \<^verbatim>\<open>updateCurrentChat\<close> with an active chat stores in that chat
  the model selected in the render whose closure makes the call, whatever model the chat
  had. For the call before the request that is the cursor's currently selected model, so
  after another model is selected the next message submitted to the chat rebinds the chat
  to that model. For the call after a successful response it is the model selected when
  the message was submitted, whatever has been selected since; the cursor's own model is
  left as it is by then.
\<close>

theorem updateCurrentChat_rebinds_model:
  assumes "currentChatId snap = Some i" and "i \<noteq> []"
  shows "(\<forall>c\<in>set (chats (updateCurrentChat snap msgs p)). chat_id c = i \<longrightarrow> chat_model c = model snap) \<and>
         (trim (input snap) \<noteq> [] \<longrightarrow>
            (\<forall>c\<in>set (chats (handleSubmit_begin (setModel m snap) n1 n2)).
               chat_id c = i \<longrightarrow> chat_model c = m)) \<and>
         (\<forall>r cur. r \<noteq> [] \<longrightarrow>
            (\<forall>c\<in>set (chats (handleSubmit_resume snap (Json (Some r)) cur)).
               chat_id c = i \<longrightarrow> chat_model c = model snap) \<and>
            model (handleSubmit_resume snap (Json (Some r)) cur) = model cur)"
proof -
  have a: "chat_model c = model snap"
    if "c \<in> set (chats (updateCurrentChat snap msgs p))" "chat_id c = i" for c msgs p
    using updated_chat [OF assms that] by auto
  have b: "chat_model c = m"
    if t: "trim (input snap) \<noteq> []"
      and c: "c \<in> set (chats (handleSubmit_begin (setModel m snap) n1 n2))" "chat_id c = i" for c
  proof -
    let ?s = "setModel m snap"
    have 1: "currentChatId ?s = Some i" using assms by (simp add: setModel_def)
    have 2: "\<not> falsy (currentChatId ?s)" using assms by (simp add: setModel_def falsy_def)
    have 3: "trim (input ?s) \<noteq> []" using t by (simp add: setModel_def)
    from c have "c \<in> set (chats (updateCurrentChat ?s (messages ?s @ [\<lparr>role = User, content = input ?s\<rparr>])
        (?s\<lparr>messages := messages ?s @ [\<lparr>role = User, content = input ?s\<rparr>]\<rparr>)))"
      by (simp add: handleSubmit_begin_active [OF 2 3])
    from updated_chat [OF 1 assms(2) this c(2)] show ?thesis
      by (auto simp: setModel_def)
  qed
  have r: "handleSubmit_resume snap (Json (Some r)) cur =
      (updateCurrentChat snap
         ((messages snap @ [\<lparr>role = User, content = input snap\<rparr>]) @ [\<lparr>role = Assistant, content = r\<rparr>])
         (cur\<lparr>messages := (messages snap @ [\<lparr>role = User, content = input snap\<rparr>])
                 @ [\<lparr>role = Assistant, content = r\<rparr>]\<rparr>))\<lparr>isLoading := False\<rparr>"
    if "r \<noteq> []" for r cur
    using that by (simp add: handleSubmit_resume_def Let_def)
  have c: "chat_model c = model snap"
    if "r \<noteq> []" "c \<in> set (chats (handleSubmit_resume snap (Json (Some r)) cur))" "chat_id c = i"
    for r cur c
    using that(2) a [OF _ that(3)] by (simp add: r [OF that(1)])
  have d: "model (handleSubmit_resume snap (Json (Some r)) cur) = model cur" if "r \<noteq> []" for r cur
    by (simp add: r [OF that] updateCurrentChat_def)
  from a b c d show ?thesis by blast
qed

theorem updateCurrentChat_rebinds_model_witness:
  "currentChatId one_chat = Some ''1'' \<and> ''1'' \<noteq> [] \<and> trim (input one_chat) \<noteq> [] \<and>
   map chat_id (chats (handleSubmit_begin (setModel ''mistral'' one_chat) 7 7)) = [''1''] \<and>
   map chat_model (chats one_chat) = [''llama2''] \<and>
   map chat_model (chats (handleSubmit_begin (setModel ''mistral'' one_chat) 7 7)) = [''mistral''] \<and>
   map chat_model (chats (updateCurrentChat (setModel ''codellama'' one_chat) [] (setModel ''codellama'' one_chat)))
     = [''codellama''] \<and>
   map chat_model (chats (handleSubmit_resume (setModel ''mistral'' one_chat) (Json (Some ''Because''))
       (setModel ''codellama'' (handleSubmit_begin (setModel ''mistral'' one_chat) 7 7)))) = [''mistral''] \<and>
   model (handleSubmit_resume (setModel ''mistral'' one_chat) (Json (Some ''Because''))
       (setModel ''codellama'' (handleSubmit_begin (setModel ''mistral'' one_chat) 7 7))) = ''codellama''"
proof -
  let ?m = "setModel ''mistral'' one_chat"
  let ?k = "setModel ''codellama'' one_chat"
  let ?fin = "handleSubmit_resume ?m (Json (Some ''Because'')) (setModel ''codellama'' (handleSubmit_begin ?m 7 7))"
  have h1: "currentChatId one_chat = Some ''1''" by (simp add: ex_defs)
  have h1': "currentChatId ?k = Some ''1''" by (simp add: ex_defs setModel_def)
  have h1'': "currentChatId ?m = Some ''1''" by (simp add: ex_defs setModel_def)
  have h2: "''1'' \<noteq> []" by simp
  have h3: "trim (input one_chat) \<noteq> []" by (simp add: ex_defs trim_def is_ws_def)
  have h4: "''Because'' \<noteq> []" by simp
  have ids: "map chat_id (chats (handleSubmit_begin ?m 7 7)) = [''1'']"
    using h3 by (simp add: handleSubmit_begin_def Let_def setModel_def updateCurrentChat_ids) (simp add: ex_defs falsy_def)
  have ids': "map chat_id (chats (updateCurrentChat ?k [] ?k)) = [''1'']"
    by (simp add: updateCurrentChat_ids) (simp add: ex_defs setModel_def)
  have ids'': "map chat_id (chats ?fin) = [''1'']"
    using ids by (simp add: handleSubmit_resume_def Let_def updateCurrentChat_ids setModel_def)
  from ids obtain c where c: "chats (handleSubmit_begin ?m 7 7) = [c]" "chat_id c = ''1''"
    by auto
  from ids' obtain d where d: "chats (updateCurrentChat ?k [] ?k) = [d]" "chat_id d = ''1''"
    by auto
  from ids'' obtain e where e: "chats ?fin = [e]" "chat_id e = ''1''"
    by auto
  note thm1 = updateCurrentChat_rebinds_model [OF h1 h2, where m = "''mistral''" and ?n1.0 = 7 and ?n2.0 = 7]
  from thm1 h3 c have m: "chat_model c = ''mistral''" by simp
  note thm2 = updateCurrentChat_rebinds_model [OF h1' h2, where msgs = "[]" and p = ?k]
  from thm2 d have m': "chat_model d = ''codellama''" by (simp add: setModel_def)
  note thm3 = updateCurrentChat_rebinds_model [OF h1'' h2, THEN conjunct2, THEN conjunct2, rule_format, OF h4]
  from thm3 [of "setModel ''codellama'' (handleSubmit_begin ?m 7 7)"] e
  have m'': "chat_model e = ''mistral''" "model ?fin = ''codellama''"
    by (simp_all add: setModel_def)
  from h1 h3 ids c d e m m' m'' show ?thesis by (simp add: ex_defs)
qed

section \<open>Deleting and selecting\<close>

text \<open>
  Claim C4. \<^verbatim>\<open>deleteChat\<close> removes the chats of the given id and keeps the others in order.
  If that id was the active one and a chat remains, the head of the remaining chats
  becomes active, with its own log and model loaded; if none remains, there is no active
  chat and the log is empty. If the id was not the active one, the active id, the loaded
  log and the model are as before.
\<close>

theorem deleteChat_effect:
  "chats (deleteChat s i) = filter (\<lambda>c. chat_id c \<noteq> i) (chats s) \<and>
   i \<notin> set (map chat_id (chats (deleteChat s i))) \<and>
   (currentChatId s = Some i \<longrightarrow>
      (\<forall>c rest. chats (deleteChat s i) = c # rest \<longrightarrow>
         currentChatId (deleteChat s i) = Some (chat_id c) \<and>
         messages (deleteChat s i) = chat_messages c \<and>
         model (deleteChat s i) = chat_model c) \<and>
      (chats (deleteChat s i) = [] \<longrightarrow>
         currentChatId (deleteChat s i) = None \<and> messages (deleteChat s i) = [])) \<and>
   (currentChatId s \<noteq> Some i \<longrightarrow>
      currentChatId (deleteChat s i) = currentChatId s \<and>
      messages (deleteChat s i) = messages s \<and>
      model (deleteChat s i) = model s)"
proof -
  have chats: "chats (deleteChat s i) = filter (\<lambda>c. chat_id c \<noteq> i) (chats s)"
    by (simp add: deleteChat_def Let_def selectChat_def split: list.splits option.splits)
  have gone: "i \<notin> set (map chat_id (chats (deleteChat s i)))"
    unfolding chats by auto
  have active_rest: "currentChatId (deleteChat s i) = Some (chat_id c) \<and>
         messages (deleteChat s i) = chat_messages c \<and>
         model (deleteChat s i) = chat_model c"
    if a: "currentChatId s = Some i" and r: "chats (deleteChat s i) = c # rest" for c rest
  proof -
    from r have f: "filter (\<lambda>c. chat_id c \<noteq> i) (chats s) = c # rest" by (simp only: chats)
    from a f find_head_of_filter [OF f] show ?thesis
      by (simp add: deleteChat_def selectChat_def)
  qed
  have active_empty: "currentChatId (deleteChat s i) = None \<and> messages (deleteChat s i) = []"
    if a: "currentChatId s = Some i" and r: "chats (deleteChat s i) = []"
  proof -
    from r have f: "filter (\<lambda>c. chat_id c \<noteq> i) (chats s) = []" by (simp only: chats)
    from a f show ?thesis by (simp add: deleteChat_def)
  qed
  have other: "currentChatId (deleteChat s i) = currentChatId s \<and>
      messages (deleteChat s i) = messages s \<and> model (deleteChat s i) = model s"
    if "currentChatId s \<noteq> Some i"
    using that by (simp add: deleteChat_def)
  from chats gone active_rest active_empty other show ?thesis by blast
qed

theorem deleteChat_effect_witness:
  "currentChatId two_chats = Some ''2'' \<and>
   chats (deleteChat two_chats ''2'') = [chatB] \<and>
   currentChatId (deleteChat two_chats ''2'') = Some ''1'' \<and>
   messages (deleteChat two_chats ''2'') = chat_messages chatB \<and>
   model (deleteChat two_chats ''2'') = ''llama2'' \<and>
   currentChatId two_chats \<noteq> Some ''1'' \<and>
   chats (deleteChat two_chats ''1'') = [chatA] \<and>
   currentChatId (deleteChat two_chats ''1'') = Some ''2'' \<and>
   messages (deleteChat two_chats ''1'') = [] \<and>
   model (deleteChat two_chats ''1'') = ''mistral'' \<and>
   currentChatId one_chat = Some ''1'' \<and>
   chats (deleteChat one_chat ''1'') = [] \<and>
   currentChatId (deleteChat one_chat ''1'') = None \<and>
   messages (deleteChat one_chat ''1'') = []"
  using deleteChat_effect [of two_chats "''2''"] deleteChat_effect [of two_chats "''1''"]
    deleteChat_effect [of one_chat "''1''"]
  by (simp add: ex_defs)

text \<open>
  Claim C6, as the spec has it, fails: \<^verbatim>\<open>selectChat\<close> gives no chat back and signals no
  \<^verbatim>\<open>NotFound\<close>.
\<close>

theorem selectChat_returns_nothing_counterexample:
  "selectChat two_chats ''1'' two_chats \<noteq> select_chat_spec two_chats ''1'' \<and>
   selectChat two_chats ''3'' two_chats \<noteq> select_chat_spec two_chats ''3''"
  by (simp add: selectChat_def select_chat_spec_def two_chats_def chatA_def chatB_def)

text \<open>
  Claim C6, amended. A call of \<^verbatim>\<open>selectChat\<close> evaluates to \<^verbatim>\<open>undefined\<close> whether or not the id
  is found; its effect on the state is the spec's: the first chat of that id, if there is
  one, becomes active with its log and model loaded, and with no such chat the state is
  left as it was.
\<close>

theorem selectChat_effect:
  "fst (selectChat s i s) = Undefined \<and>
   snd (selectChat s i s) = snd (select_chat_spec s i) \<and>
   (\<forall>c. find (\<lambda>c. chat_id c = i) (chats s) = Some c \<longrightarrow>
      snd (selectChat s i s) = s\<lparr>currentChatId := Some i, messages := chat_messages c, model := chat_model c\<rparr>) \<and>
   (i \<notin> set (map chat_id (chats s)) \<longrightarrow> snd (selectChat s i s) = s)"
proof -
  have "i \<notin> set (map chat_id (chats s)) \<Longrightarrow> find (\<lambda>c. chat_id c = i) (chats s) = None"
    by (auto simp: find_None_iff)
  then show ?thesis
    by (auto simp: selectChat_def select_chat_spec_def split: option.splits)
qed

theorem selectChat_effect_witness:
  "find (\<lambda>c. chat_id c = ''1'') (chats two_chats) = Some chatB \<and>
   snd (selectChat two_chats ''1'' two_chats) =
     two_chats\<lparr>currentChatId := Some ''1'', messages := chat_messages chatB, model := ''llama2''\<rparr> \<and>
   ''3'' \<notin> set (map chat_id (chats two_chats)) \<and>
   snd (selectChat two_chats ''3'' two_chats) = two_chats \<and>
   fst (selectChat two_chats ''3'' two_chats) = Undefined"
proof -
  have f: "find (\<lambda>c. chat_id c = ''1'') (chats two_chats) = Some chatB"
    by (simp add: ex_defs)
  have n: "''3'' \<notin> set (map chat_id (chats two_chats))"
    by (simp add: ex_defs)
  have m: "chat_model chatB = ''llama2''"
    by (simp add: chatB_def)
  from selectChat_effect [of two_chats "''1''"] f
  have a: "snd (selectChat two_chats ''1'' two_chats) =
     two_chats\<lparr>currentChatId := Some ''1'', messages := chat_messages chatB, model := chat_model chatB\<rparr>"
    by blast
  from selectChat_effect [of two_chats "''3''"] n
  have b: "snd (selectChat two_chats ''3'' two_chats) = two_chats"
    and c: "fst (selectChat two_chats ''3'' two_chats) = Undefined"
    by blast+
  from f n a b c show ?thesis by (simp only: m simp_thms)
qed

section \<open>Fresh ids\<close>

text \<open>
  No operation but \<^verbatim>\<open>createNewChat\<close> brings an id into the collection, and the id it brings
  is the text of the clock's reading.
\<close>

lemma ids_create: "map chat_id (chats (createNewChat snap n m p)) = toString n # map chat_id (chats p)"
  by (simp add: createNewChat_def Let_def)

lemma ids_select: "chats (snd (selectChat snap i p)) = chats p"
  by (simp add: selectChat_def split: option.splits)

lemma ids_delete: "map chat_id (chats (deleteChat s i)) = filter (\<lambda>j. j \<noteq> i) (map chat_id (chats s))"
  by (simp add: deleteChat_def Let_def selectChat_def filter_map comp_def split: list.splits option.splits)

lemma fresh_below: "ids_before t s \<Longrightarrow> t \<le> n \<Longrightarrow> toString n \<notin> set (map chat_id (chats s))"
proof
  assume b: "ids_before t s" and le: "t \<le> n" and m: "toString n \<in> set (map chat_id (chats s))"
  from b m obtain k where "k < t" "toString n = toString k"
    unfolding ids_before_def by blast
  with le toString_inject show False by fastforce
qed

lemma ids_before_mono: "ids_before t s \<Longrightarrow> t \<le> u \<Longrightarrow> ids_before u s"
  unfolding ids_before_def by (meson less_le_trans)

lemma step_unique:
  assumes "distinct (map chat_id (chats s))" "ids_before t s" "clock_ok t (x # ops)"
  shows "distinct (map chat_id (chats (step s x))) \<and>
         (\<exists>u. ids_before u (step s x) \<and> clock_ok u ops)"
proof (cases x)
  case (CreateChat n m)
  with assms have le: "t \<le> n" and rest: "clock_ok (Suc n) ops" by simp_all
  have "ids_before (Suc n) s"
    using ids_before_mono [OF assms(2)] le by simp
  then have "ids_before (Suc n) (step s x)"
    unfolding ids_before_def CreateChat by (auto simp: ids_create)
  with fresh_below [OF assms(2) le] assms(1) rest show ?thesis
    by (auto simp: CreateChat ids_create)
next
  case (AppendAndSync msgs)
  with assms show ?thesis
    by (auto simp: ids_before_def updateCurrentChat_ids)
next
  case (SelectChat i)
  with assms show ?thesis
    by (auto simp: ids_before_def ids_select)
next
  case (DeleteChat i)
  with assms have "ids_before t (step s x)" "clock_ok t ops"
    by (auto simp: ids_before_def ids_delete)
  with assms(1) show ?thesis
    by (auto simp: DeleteChat ids_delete)
qed

lemma run_unique:
  "distinct (map chat_id (chats s)) \<Longrightarrow> ids_before t s \<Longrightarrow> clock_ok t ops \<Longrightarrow>
   distinct (map chat_id (chats (run s ops)))"
proof (induction ops arbitrary: s t)
  case Nil
  then show ?case by (simp add: run_def)
next
  case (Cons x ops)
  from step_unique [OF Cons.prems] obtain u where
    "distinct (map chat_id (chats (step s x)))" "ids_before u (step s x)" "clock_ok u ops"
    by blast
  from Cons.IH [OF this] show ?case by (simp add: run_def)
qed

text \<open>
  Claim C5, as the spec has it, fails: \<^verbatim>\<open>createNewChat\<close> takes the id from the clock and
  looks at no id of the collection, so two chats created in the same millisecond share
  their id.
\<close>

theorem createNewChat_id_collides_counterexample:
  "chat_id (hd (chats (createNewChat (createNewChat init_state 1762107480000 1762107480000 init_state)
       1762107480000 1762107480000 (createNewChat init_state 1762107480000 1762107480000 init_state))))
     \<in> set (map chat_id (chats (createNewChat init_state 1762107480000 1762107480000 init_state))) \<and>
   \<not> distinct (map chat_id (chats (run init_state
       [CreateChat 1762107480000 1762107480000, CreateChat 1762107480000 1762107480000])))"
  by (simp add: run_def createNewChat_def Let_def)

text \<open>
  Claim C5, amended. The id of a new chat is the decimal text of the clock's reading at
  the call. In a collection whose ids are distinct and are texts of readings below \<open>t\<close>, a
  creation whose reading is at least \<open>t\<close> gets an id that no chat of the collection has,
  and the ids stay distinct; and they stay distinct along every sequence of create,
  append-and-sync, select and delete operations in which each creation reads the clock
  later than every creation before it.
\<close>

theorem createNewChat_fresh_id:
  assumes "distinct (map chat_id (chats s))" and "ids_before t s"
  shows "(t \<le> now1 \<longrightarrow>
            chat_id (hd (chats (createNewChat s now1 now2 s))) = toString now1 \<and>
            toString now1 \<notin> set (map chat_id (chats s)) \<and>
            distinct (map chat_id (chats (createNewChat s now1 now2 s)))) \<and>
         (clock_ok t ops \<longrightarrow> distinct (map chat_id (chats (run s ops))))"
proof -
  have "chat_id (hd (chats (createNewChat s now1 now2 s))) = toString now1"
    by (simp add: createNewChat_def Let_def)
  moreover have "distinct (map chat_id (chats (createNewChat s now1 now2 s)))" if "t \<le> now1"
    using fresh_below [OF assms(2) that] assms(1) by (simp add: ids_create)
  ultimately show ?thesis
    using fresh_below [OF assms(2)] run_unique [OF assms] by blast
qed

theorem createNewChat_fresh_id_witness:
  "distinct (map chat_id (chats init_state)) \<and> ids_before 0 init_state \<and>
   clock_ok 0 [CreateChat 5 5, AppendAndSync [], CreateChat 6 6, DeleteChat (toString 5), CreateChat 9 9] \<and>
   toString 5 \<notin> set (map chat_id (chats init_state)) \<and>
   distinct (map chat_id (chats (run init_state
     [CreateChat 5 5, AppendAndSync [], CreateChat 6 6, DeleteChat (toString 5), CreateChat 9 9])))"
proof -
  have h1: "distinct (map chat_id (chats init_state))" by (simp add: init_state_def)
  have h2: "ids_before 0 init_state" by (simp add: ids_before_def init_state_def)
  have h3: "clock_ok 0 [CreateChat 5 5, AppendAndSync [], CreateChat 6 6, DeleteChat (toString 5), CreateChat 9 9]"
    by simp
  from createNewChat_fresh_id [OF h1 h2, of 5 5] createNewChat_fresh_id [OF h1 h2, of _ _ "[CreateChat 5 5, AppendAndSync [], CreateChat 6 6, DeleteChat (toString 5), CreateChat 9 9]"] h1 h2 h3
  show ?thesis by simp
qed

section \<open>Submitting a message\<close>

lemma trim_Hello: "trim ''Hello'' \<noteq> []"
  by (simp add: trim_def is_ws_def)

lemma toString_500: "toString 500 = ''500''"
  by code_simp

lemma resume_throws:
  "throws outcome \<Longrightarrow> \<exists>e. handleSubmit_resume snap outcome cur = cur\<lparr>error := Some e, isLoading := False\<rparr>"
  by (auto simp: throws_def handleSubmit_resume_def Let_def split: fetch_outcome.splits option.splits)

lemma begin_messages:
  "trim (input s) \<noteq> [] \<Longrightarrow>
   messages (handleSubmit_begin s n1 n2) = messages s @ [\<lparr>role = User, content = input s\<rparr>]"
  by (simp add: handleSubmit_begin_def Let_def updateCurrentChat_def)

lemma begin_error: "trim (input s) \<noteq> [] \<Longrightarrow> error (handleSubmit_begin s n1 n2) = None"
  by (simp add: handleSubmit_begin_def Let_def)

lemma begin_active_log:
  assumes "\<not> falsy (currentChatId s)" "trim (input s) \<noteq> []"
    and "c \<in> set (chats (handleSubmit_begin s n1 n2))" "Some (chat_id c) = currentChatId s"
  shows "chat_messages c = messages s @ [\<lparr>role = User, content = input s\<rparr>]"
proof -
  from assms(1) assms(4) [symmetric] have i: "currentChatId s = Some (chat_id c)" "chat_id c \<noteq> []"
    by (simp_all add: falsy_def)
  from assms(3) have "c \<in> set (chats (updateCurrentChat s (messages s @ [\<lparr>role = User, content = input s\<rparr>])
        (s\<lparr>messages := messages s @ [\<lparr>role = User, content = input s\<rparr>]\<rparr>)))"
    by (simp add: handleSubmit_begin_active [OF assms(1,2)])
  from updated_chat [OF i this refl] show ?thesis by auto
qed

text \<open>
  Claim C2 at a submission with no active chat. \<^verbatim>\<open>handleSubmit\<close> calls \<^verbatim>\<open>createNewChat\<close> and
  then \<^verbatim>\<open>updateCurrentChat\<close>, whose guard of line 63 still reads the \<^verbatim>\<open>currentChatId\<close> of the
  render the submission was made in, which is \<^verbatim>\<open>null\<close>: it returns at once. When the request
  is issued the new chat of the collection has an empty log and the title \<^verbatim>\<open>New Chat\<close>; the
  user's message is in the displayed log only. The call after a successful response
  reads the same \<^verbatim>\<open>null\<close>, so the collection does not get the assistant's message either.
\<close>

theorem handleSubmit_without_chat_drops_message:
  "chats (handleSubmit_begin (setInput ''Hello'' init_state) now1 now2) =
     [\<lparr>chat_id = toString now1, chat_title = ''New Chat'', chat_messages = [],
       chat_model = ''llama3.2:latest'', chat_createdAt = now2\<rparr>] \<and>
   currentChatId (handleSubmit_begin (setInput ''Hello'' init_state) now1 now2) = Some (toString now1) \<and>
   messages (handleSubmit_begin (setInput ''Hello'' init_state) now1 now2) = [\<lparr>role = User, content = ''Hello''\<rparr>] \<and>
   chats (handleSubmit (setInput ''Hello'' init_state) now1 now2 (Json (Some ''Hi there''))) =
     [\<lparr>chat_id = toString now1, chat_title = ''New Chat'', chat_messages = [],
       chat_model = ''llama3.2:latest'', chat_createdAt = now2\<rparr>]"
  using trim_Hello
  by (simp add: handleSubmit_def handleSubmit_begin_def handleSubmit_resume_def setInput_def init_state_def
      falsy_def createNewChat_def updateCurrentChat_def Let_def)

text \<open>
  Claim C7. A chat is created while the selected model is \<^verbatim>\<open>llama3.2:latest\<close>; then \<^verbatim>\<open>Hello\<close>
  is typed and submitted, and the request succeeds with the response \<^verbatim>\<open>Hi there\<close>. The
  new chat is the active one, its log in the collection is the user's \<^verbatim>\<open>Hello\<close> followed by
  the assistant's \<^verbatim>\<open>Hi there\<close>, its title is \<^verbatim>\<open>Hello\<close>, and the displayed log is the same.
\<close>

theorem create_then_submit_scenario:
  assumes "model s = ''llama3.2:latest''"
  shows "currentChatId (handleSubmit (setInput ''Hello'' (createNewChat s t1 t2 s)) u1 u2 (Json (Some ''Hi there'')))
           = Some (toString t1) \<and>
         find (\<lambda>c. chat_id c = toString t1)
           (chats (handleSubmit (setInput ''Hello'' (createNewChat s t1 t2 s)) u1 u2 (Json (Some ''Hi there''))))
           = Some \<lparr>chat_id = toString t1, chat_title = ''Hello'',
                   chat_messages = [\<lparr>role = User, content = ''Hello''\<rparr>,
                                    \<lparr>role = Assistant, content = ''Hi there''\<rparr>],
                   chat_model = ''llama3.2:latest'', chat_createdAt = t2\<rparr> \<and>
         messages (handleSubmit (setInput ''Hello'' (createNewChat s t1 t2 s)) u1 u2 (Json (Some ''Hi there'')))
           = [\<lparr>role = User, content = ''Hello''\<rparr>, \<lparr>role = Assistant, content = ''Hi there''\<rparr>] \<and>
         error (handleSubmit (setInput ''Hello'' (createNewChat s t1 t2 s)) u1 u2 (Json (Some ''Hi there''))) = None"
  using assms trim_Hello toString_nonempty [of t1]
  by (simp add: handleSubmit_def handleSubmit_begin_def handleSubmit_resume_def setInput_def
      falsy_def createNewChat_def updateCurrentChat_def Let_def)

theorem create_then_submit_scenario_witness:
  "model init_state = ''llama3.2:latest'' \<and>
   chats (handleSubmit (setInput ''Hello'' (createNewChat init_state 5 6 init_state)) 8 9 (Json (Some ''Hi there'')))
     = [\<lparr>chat_id = toString 5, chat_title = ''Hello'',
                   chat_messages = [\<lparr>role = User, content = ''Hello''\<rparr>,
                                    \<lparr>role = Assistant, content = ''Hi there''\<rparr>],
                   chat_model = ''llama3.2:latest'', chat_createdAt = 6\<rparr>]"
proof -
  have h: "model init_state = ''llama3.2:latest''" by (simp add: init_state_def)
  have l: "length (chats (handleSubmit (setInput ''Hello'' (createNewChat init_state 5 6 init_state)) 8 9 (Json (Some ''Hi there'')))) = 1"
    using trim_Hello toString_nonempty [of 5]
    by (simp add: handleSubmit_def handleSubmit_begin_def handleSubmit_resume_def setInput_def
      falsy_def createNewChat_def updateCurrentChat_def Let_def init_state_def)
  then obtain c where c: "chats (handleSubmit (setInput ''Hello'' (createNewChat init_state 5 6 init_state)) 8 9 (Json (Some ''Hi there''))) = [c]"
    by (auto simp: length_Suc_conv)
  from create_then_submit_scenario [OF h, of 5 6 8 9] c h show ?thesis
    by (simp split: if_splits)
qed

text \<open>
  Claim C8. When a submission with a non-blank input meets a failure (a thrown error, a
  status that is not a success, a body without \<^verbatim>\<open>response\<close>), the log of the active chat
  is the old log followed by the user's message, with no assistant message; the
  collection is as it was when the request was issued, where the chat that was active at
  the submission holds that same log; the error slot holds one message, whatever
  happened while the request was pending; and the next submission with a non-blank input
  empties the slot.
\<close>

theorem handleSubmit_failure:
  assumes "trim (input s) \<noteq> []" and "throws outcome"
  shows "messages (handleSubmit s n1 n2 outcome) = messages s @ [\<lparr>role = User, content = input s\<rparr>] \<and>
         chats (handleSubmit s n1 n2 outcome) = chats (handleSubmit_begin s n1 n2) \<and>
         (\<not> falsy (currentChatId s) \<longrightarrow>
            (\<forall>c\<in>set (chats (handleSubmit s n1 n2 outcome)).
               Some (chat_id c) = currentChatId s \<longrightarrow>
               chat_messages c = messages s @ [\<lparr>role = User, content = input s\<rparr>])) \<and>
         (\<exists>e. error (handleSubmit s n1 n2 outcome) = Some e) \<and>
         (\<forall>cur. \<exists>e. handleSubmit_resume s outcome cur = cur\<lparr>error := Some e, isLoading := False\<rparr>) \<and>
         (\<forall>v m1 m2. trim v \<noteq> [] \<longrightarrow>
            error (handleSubmit_begin (setInput v (handleSubmit s n1 n2 outcome)) m1 m2) = None)"
proof -
  let ?b = "handleSubmit_begin s n1 n2"
  from resume_throws [OF assms(2)] obtain e where
    e: "handleSubmit_resume s outcome ?b = ?b\<lparr>error := Some e, isLoading := False\<rparr>" by blast
  have hs: "handleSubmit s n1 n2 outcome = ?b\<lparr>error := Some e, isLoading := False\<rparr>"
    using assms(1) e by (simp add: handleSubmit_def)
  have 1: "messages (handleSubmit s n1 n2 outcome) = messages s @ [\<lparr>role = User, content = input s\<rparr>]"
    by (simp add: hs begin_messages [OF assms(1)])
  have 2: "chats (handleSubmit s n1 n2 outcome) = chats ?b"
    by (simp add: hs)
  have 3: "chat_messages c = messages s @ [\<lparr>role = User, content = input s\<rparr>]"
    if "\<not> falsy (currentChatId s)" "c \<in> set (chats (handleSubmit s n1 n2 outcome))"
      "Some (chat_id c) = currentChatId s" for c
    using begin_active_log [OF that(1) assms(1) _ that(3)] that(2) unfolding 2 by blast
  have 4: "\<exists>e. error (handleSubmit s n1 n2 outcome) = Some e"
    by (simp add: hs)
  have 5: "error (handleSubmit_begin (setInput v (handleSubmit s n1 n2 outcome)) m1 m2) = None"
    if "trim v \<noteq> []" for v m1 m2
    using that by (simp add: begin_error setInput_def)
  from 1 2 3 4 5 resume_throws [OF assms(2)] show ?thesis by blast
qed

theorem handleSubmit_failure_witness:
  "trim (input one_chat) \<noteq> [] \<and> throws (NotOk 500 ''boom'') \<and> throws (Thrown (Some ''Failed to fetch'')) \<and>
   throws (Json None) \<and> \<not> falsy (currentChatId one_chat) \<and>
   messages (handleSubmit one_chat 7 7 (NotOk 500 ''boom'')) =
     [\<lparr>role = User, content = ''Hi''\<rparr>, \<lparr>role = Assistant, content = ''Yo''\<rparr>, \<lparr>role = User, content = ''Why?''\<rparr>] \<and>
   map chat_messages (chats (handleSubmit one_chat 7 7 (NotOk 500 ''boom''))) =
     [[\<lparr>role = User, content = ''Hi''\<rparr>, \<lparr>role = Assistant, content = ''Yo''\<rparr>, \<lparr>role = User, content = ''Why?''\<rparr>]] \<and>
   error (handleSubmit one_chat 7 7 (NotOk 500 ''boom'')) = Some ''API Error: 500 boom'' \<and>
   error (handleSubmit one_chat 7 7 (Thrown (Some ''Failed to fetch''))) = Some ''Failed to fetch'' \<and>
   error (handleSubmit one_chat 7 7 (Json None)) = Some ''No response data received from Ollama'' \<and>
   error (handleSubmit_begin (setInput ''Again'' (handleSubmit one_chat 7 7 (NotOk 500 ''boom''))) 8 8) = None"
proof -
  have h1: "trim (input one_chat) \<noteq> []" by (simp add: ex_defs trim_def is_ws_def)
  have h2: "throws (NotOk 500 ''boom'')" "throws (Thrown (Some ''Failed to fetch''))" "throws (Json None)"
    by (simp_all add: throws_def)
  have h3: "\<not> falsy (currentChatId one_chat)" by (simp add: ex_defs falsy_def)
  have h4: "trim ''Again'' \<noteq> []" by (simp add: trim_def is_ws_def)
  note f = handleSubmit_failure [OF h1 h2(1), of 7 7]
  have ids: "map chat_id (chats (handleSubmit one_chat 7 7 (NotOk 500 ''boom''))) = [''1'']"
    using f h1 h3 by (simp add: handleSubmit_begin_active updateCurrentChat_ids) (simp add: ex_defs)
  then obtain c where c: "chats (handleSubmit one_chat 7 7 (NotOk 500 ''boom'')) = [c]" "chat_id c = ''1''"
    by auto
  have cur: "currentChatId one_chat = Some ''1''" "messages one_chat = chat_messages chatB" "input one_chat = ''Why?''"
    by (simp_all add: ex_defs)
  from f h3 c cur have log: "chat_messages c = chat_messages chatB @ [\<lparr>role = User, content = ''Why?''\<rparr>]"
    by simp
  have e1: "error (handleSubmit one_chat 7 7 (NotOk 500 ''boom'')) = Some ''API Error: 500 boom''"
    using h1 by (simp add: handleSubmit_def handleSubmit_resume_def Let_def toString_500)
  have e2: "error (handleSubmit one_chat 7 7 (Thrown (Some ''Failed to fetch''))) = Some ''Failed to fetch''"
    using h1 by (simp add: handleSubmit_def handleSubmit_resume_def Let_def)
  have e3: "error (handleSubmit one_chat 7 7 (Json None)) = Some ''No response data received from Ollama''"
    using h1 by (simp add: handleSubmit_def handleSubmit_resume_def Let_def)
  from f h4 have cl: "error (handleSubmit_begin (setInput ''Again'' (handleSubmit one_chat 7 7 (NotOk 500 ''boom''))) 8 8) = None"
    by blast
  from f have m: "messages (handleSubmit one_chat 7 7 (NotOk 500 ''boom'')) = messages one_chat @ [\<lparr>role = User, content = input one_chat\<rparr>]"
    by blast
  from h1 h2 h3 m c log e1 e2 e3 cl cur show ?thesis by (simp add: chatB_def)
qed

end
